theory Spec2Isabelle
  imports Complex_Main
begin

section \<open>Data model of \<open>LiveMusicHelper\<close>\<close>

text \<open>
  The playback engine is the class \<open>LiveMusicHelper\<close> (utils/LiveMusicHelper.ts).
  Its fields become a record, every method a function from the old object state to the
  new one. JavaScript numbers (audio-clock seconds, durations, gains) are modelled as
  \<open>real\<close>; the rounding of a sum to a double is represented where a branch of the
  scheduler depends on it, by an explicit rounding function. Everything the object does to
  its collaborators is recorded in the state: dispatched DOM events, commands sent to
  the Session, automation calls on the three audio parameters, buffer sources started,
  and pending \<open>setTimeout\<close> timers.
\<close>

datatype PlaybackState = Stopped | Loading | Playing | Paused

text \<open>A prompt as built in index.tsx. The field \<open>text\<close> is called \<open>prompt_text\<close> here.\<close>

record Prompt =
  promptId :: string
  prompt_text :: string
  weight :: real
  cc :: nat
  color :: string
  description :: string

record LiveMusicFilteredPrompt =
  filtered_text :: string
  filteredReason :: string

record AudioChunk =
  chunk_data :: string

record LiveMusicServerMessage =
  setupComplete :: bool
  filteredPrompt :: "LiveMusicFilteredPrompt option"
  audioChunks :: "AudioChunk list option"

text \<open>Events dispatched on the helper (it extends \<open>EventTarget\<close>), by event name.\<close>

datatype event =
    PlaybackStateChanged PlaybackState
  | FilteredPromptEvent LiveMusicFilteredPrompt
  | ErrorEvent string
  | ErrorCleared string

text \<open>Commands the helper issues on a \<open>LiveMusicSession\<close>.\<close>

datatype session_cmd =
    SessionPlay
  | SessionPause
  | SessionStop
  | SessionSetWeightedPrompts "Prompt list"

text \<open>
  An \<open>AudioParam\<close> is represented by the automation calls made on it, oldest first.
  Both constructors carry the value and then the time.
\<close>

datatype automation =
    SetValueAtTime real real
  | LinearRampToValueAtTime real real

fun automation_time :: "automation \<Rightarrow> real" where
  "automation_time (SetValueAtTime v t) = t"
| "automation_time (LinearRampToValueAtTime v t) = t"

text \<open>\<open>cancelScheduledValues(t)\<close> removes every scheduled change at time \<open>t\<close> or later.\<close>

definition cancelScheduledValues :: "real \<Rightarrow> automation list \<Rightarrow> automation list" where
  "cancelScheduledValues t evs = filter (\<lambda>e. automation_time e < t) evs"

text \<open>The three callbacks handed to \<open>setTimeout\<close> in the class.\<close>

datatype timer_action = PromoteToPlaying | PauseCleanup | StopCleanup

record timer =
  timer_id :: nat
  timer_delay_ms :: real
  timer_callback :: timer_action

datatype js_error = TypeError

record LiveMusicHelper =
  session :: "nat option"
  sessionPromise :: "nat option"
  connectionError :: bool
  filteredPrompts :: "string set"
  nextStartTime :: real
  extraDestination :: "nat option"
  fadeEnabled :: bool
  playbackState :: PlaybackState
  fadeOutTimeoutId :: "nat option"
  outputGain :: "automation list"
  masterGain :: "automation list"
  highShelfGain :: "automation list"
  filterTaps :: "nat list"
  contextResumed :: bool
  bufferSources :: "real list"
  started :: "(real \<times> real) list"
  dispatched :: "event list"
  sessionLog :: "(nat \<times> session_cmd) list"
  connects :: nat
  timers :: "timer list"
  lastTimerId :: nat

text \<open>
  \<open>session\<close> and \<open>sessionPromise\<close> hold the number of the connection attempt they belong
  to (\<open>None\<close> is \<open>null\<close>); \<open>connects\<close> counts the attempts made. \<open>bufferSources\<close> lists
  the durations of the buffer sources created and connected to the output node,
  \<open>started\<close> the pairs (start time, duration) of those that were started.
\<close>

datatype outcome = Returned LiveMusicHelper | Threw js_error LiveMusicHelper

fun state_of :: "outcome \<Rightarrow> LiveMusicHelper" where
  "state_of (Returned h) = h"
| "state_of (Threw e h) = h"

definition NO_ACTIVE_PROMPTS_ERROR :: string where
  "NO_ACTIVE_PROMPTS_ERROR = ''There needs to be one active prompt to play.''"

definition bufferTime :: real where
  "bufferTime = 2"

definition FADE_DURATION :: real where
  "FADE_DURATION = 5"

text \<open>The object as the constructor leaves it.\<close>

definition init :: LiveMusicHelper where
  "init = \<lparr> session = None, sessionPromise = None, connectionError = True,
     filteredPrompts = {}, nextStartTime = 0, extraDestination = None,
     fadeEnabled = False, playbackState = Stopped, fadeOutTimeoutId = None,
     outputGain = [], masterGain = [], highShelfGain = [], filterTaps = [],
     contextResumed = False, bufferSources = [], started = [], dispatched = [],
     sessionLog = [], connects = 0, timers = [], lastTimerId = 0 \<rparr>"

section \<open>Environment: events, timers, session commands\<close>

definition dispatchEvent :: "event \<Rightarrow> LiveMusicHelper \<Rightarrow> LiveMusicHelper" where
  "dispatchEvent e h = h\<lparr>dispatched := dispatched h @ [e]\<rparr>"

text \<open>
  \<open>setTimeout\<close> returns a fresh positive handle and records the pending timer;
  \<open>clearTimeout\<close> drops the pending timer with that handle.
\<close>

definition setTimeout :: "timer_action \<Rightarrow> real \<Rightarrow> LiveMusicHelper \<Rightarrow> nat \<times> LiveMusicHelper" where
  "setTimeout cb ms h =
     (let i = Suc (lastTimerId h)
      in (i, h\<lparr>timers := timers h @ [\<lparr>timer_id = i, timer_delay_ms = ms, timer_callback = cb\<rparr>],
               lastTimerId := i\<rparr>))"

definition clearTimeout :: "nat \<Rightarrow> LiveMusicHelper \<Rightarrow> LiveMusicHelper" where
  "clearTimeout i h = h\<lparr>timers := filter (\<lambda>t. timer_id t \<noteq> i) (timers h)\<rparr>"

definition sendSession :: "session_cmd \<Rightarrow> LiveMusicHelper \<Rightarrow> LiveMusicHelper" where
  "sendSession c h =
     (case session h of
        None \<Rightarrow> h
      | Some s \<Rightarrow> h\<lparr>sessionLog := sessionLog h @ [(s, c)]\<rparr>)"

section \<open>Methods\<close>

definition getSession :: "LiveMusicHelper \<Rightarrow> nat \<times> LiveMusicHelper" where
  "getSession h =
     (case sessionPromise h of
        None \<Rightarrow> (Suc (connects h),
                 h\<lparr>connects := Suc (connects h), sessionPromise := Some (Suc (connects h))\<rparr>)
      | Some p \<Rightarrow> (p, h))"

definition setPlaybackState :: "PlaybackState \<Rightarrow> LiveMusicHelper \<Rightarrow> LiveMusicHelper" where
  "setPlaybackState st h =
     dispatchEvent (PlaybackStateChanged st) (h\<lparr>playbackState := st\<rparr>)"

subsection \<open>Chunk scheduler\<close>

text \<open>The callback of the buffer-horizon timer armed in \<open>processAudioChunks\<close>.\<close>

definition promoteToPlaying :: "LiveMusicHelper \<Rightarrow> LiveMusicHelper" where
  "promoteToPlaying h =
     (if playbackState h = Loading then setPlaybackState Playing h else h)"

text \<open>The block \<open>if (this.nextStartTime === 0) { ... }\<close>.\<close>

definition establishTimeline :: "real \<Rightarrow> LiveMusicHelper \<Rightarrow> LiveMusicHelper" where
  "establishTimeline now h =
     (if nextStartTime h = 0
      then snd (setTimeout PromoteToPlaying (bufferTime * 1000)
                  (h\<lparr>nextStartTime := now + bufferTime\<rparr>))
      else h)"

text \<open>
  The part of \<open>processAudioChunks\<close> after \<open>await decodeAudioData(...)\<close>: \<open>d\<close> is the
  duration of the decoded buffer, \<open>now\<close> is \<open>audioContext.currentTime\<close>.
\<close>

definition processAudioChunks_decoded :: "real \<Rightarrow> real \<Rightarrow> LiveMusicHelper \<Rightarrow> LiveMusicHelper" where
  "processAudioChunks_decoded d now h =
     (let h1 = establishTimeline now (h\<lparr>bufferSources := bufferSources h @ [d]\<rparr>)
      in if nextStartTime h1 < now
         then (setPlaybackState Loading h1)\<lparr>nextStartTime := 0\<rparr>
         else h1\<lparr>started := started h1 @ [(nextStartTime h1, d)],
                 nextStartTime := nextStartTime h1 + d\<rparr>)"

text \<open>
  \<open>processAudioChunks\<close>. The decoder (\<open>decode\<close> and \<open>decodeAudioData\<close> of utils/audio.ts)
  is the parameter \<open>dec\<close>, giving the duration of the buffer decoded from a chunk.
  Reading \<open>audioChunks[0].data\<close> of an empty array throws a \<open>TypeError\<close>.
\<close>

definition processAudioChunks ::
  "(AudioChunk \<Rightarrow> real) \<Rightarrow> AudioChunk list \<Rightarrow> real \<Rightarrow> LiveMusicHelper \<Rightarrow> outcome" where
  "processAudioChunks dec chunks now h =
     (if playbackState h = Paused \<or> playbackState h = Stopped then Returned h
      else case chunks of
             [] \<Rightarrow> Threw TypeError h
           | c # rest \<Rightarrow> Returned (processAudioChunks_decoded (dec c) now h))"

subsection \<open>Chunk scheduler with rounded sums\<close>

text \<open>
  The cursor is a JavaScript number, so each sum stored in it is the exact sum rounded
  to a double. The definitions above add exactly. The three below are the same code
  with the rounding made explicit: \<open>fl\<close> maps a real to the double it is rounded to,
  and is applied to \<open>currentTime + bufferTime\<close> and to \<open>nextStartTime + duration\<close>
  before they are stored. The test \<open>nextStartTime < currentTime\<close> then compares the
  rounded cursor, as the code does. With the identity for \<open>fl\<close> they are the
  definitions above.
\<close>

definition establishTimeline_fl ::
  "(real \<Rightarrow> real) \<Rightarrow> real \<Rightarrow> LiveMusicHelper \<Rightarrow> LiveMusicHelper" where
  "establishTimeline_fl fl now h =
     (if nextStartTime h = 0
      then snd (setTimeout PromoteToPlaying (bufferTime * 1000)
                  (h\<lparr>nextStartTime := fl (now + bufferTime)\<rparr>))
      else h)"

definition processAudioChunks_decoded_fl ::
  "(real \<Rightarrow> real) \<Rightarrow> real \<Rightarrow> real \<Rightarrow> LiveMusicHelper \<Rightarrow> LiveMusicHelper" where
  "processAudioChunks_decoded_fl fl d now h =
     (let h1 = establishTimeline_fl fl now (h\<lparr>bufferSources := bufferSources h @ [d]\<rparr>)
      in if nextStartTime h1 < now
         then (setPlaybackState Loading h1)\<lparr>nextStartTime := 0\<rparr>
         else h1\<lparr>started := started h1 @ [(nextStartTime h1, d)],
                 nextStartTime := fl (nextStartTime h1 + d)\<rparr>)"

definition processAudioChunks_fl ::
  "(real \<Rightarrow> real) \<Rightarrow> (AudioChunk \<Rightarrow> real) \<Rightarrow> AudioChunk list \<Rightarrow> real
     \<Rightarrow> LiveMusicHelper \<Rightarrow> outcome" where
  "processAudioChunks_fl fl dec chunks now h =
     (if playbackState h = Paused \<or> playbackState h = Stopped then Returned h
      else case chunks of
             [] \<Rightarrow> Threw TypeError h
           | c # rest \<Rightarrow> Returned (processAudioChunks_decoded_fl fl (dec c) now h))"

text \<open>
  A small rounding to try the statements on: to the nearest multiple of a quarter,
  halves upwards.
\<close>

definition round_quarter :: "real \<Rightarrow> real" where
  "round_quarter x = real_of_int \<lfloor>4 * x + 1 / 2\<rfloor> / 4"

subsection \<open>pause and stop\<close>

text \<open>The two \<open>cleanup\<close> closures.\<close>

definition pauseCleanup :: "LiveMusicHelper \<Rightarrow> LiveMusicHelper" where
  "pauseCleanup h =
     (sendSession SessionPause h)\<lparr>nextStartTime := 0, fadeOutTimeoutId := None\<rparr>"

definition stopCleanup :: "LiveMusicHelper \<Rightarrow> LiveMusicHelper" where
  "stopCleanup h =
     (sendSession SessionStop h)\<lparr>nextStartTime := 0, session := None,
        sessionPromise := None, fadeOutTimeoutId := None\<rparr>"

text \<open>
  The fade-out branch shared by \<open>pause\<close> and \<open>stop\<close>; \<open>g\<close> is the value read from
  \<open>outputNode.gain.value\<close>.
\<close>

definition fadeOut :: "timer_action \<Rightarrow> real \<Rightarrow> real \<Rightarrow> LiveMusicHelper \<Rightarrow> LiveMusicHelper" where
  "fadeOut cb now g h =
     (let h1 = h\<lparr>outputGain := cancelScheduledValues now (outputGain h)
                    @ [SetValueAtTime g now,
                       LinearRampToValueAtTime 0.0001 (now + FADE_DURATION)]\<rparr>;
          (i, h2) = setTimeout cb (FADE_DURATION * 1000) h1
      in h2\<lparr>fadeOutTimeoutId := Some i\<rparr>)"

definition snapToZero :: "real \<Rightarrow> LiveMusicHelper \<Rightarrow> LiveMusicHelper" where
  "snapToZero now h =
     h\<lparr>outputGain := cancelScheduledValues now (outputGain h) @ [SetValueAtTime 0 now]\<rparr>"

definition pause :: "real \<Rightarrow> real \<Rightarrow> LiveMusicHelper \<Rightarrow> LiveMusicHelper" where
  "pause now g h =
     (if playbackState h = Paused \<or> playbackState h = Stopped then h
      else let h1 = setPlaybackState Paused h
           in if fadeEnabled h1 then fadeOut PauseCleanup now g h1
              else pauseCleanup (snapToZero now h1))"

definition stop :: "real \<Rightarrow> real \<Rightarrow> LiveMusicHelper \<Rightarrow> LiveMusicHelper" where
  "stop now g h =
     (if playbackState h = Stopped then h
      else let h1 = setPlaybackState Stopped h
           in if fadeEnabled h1 then fadeOut StopCleanup now g h1
              else stopCleanup (snapToZero now h1))"

text \<open>A pending timer fires: it leaves the pending list and its callback runs.\<close>

fun runCallback :: "timer_action \<Rightarrow> LiveMusicHelper \<Rightarrow> LiveMusicHelper" where
  "runCallback PromoteToPlaying h = promoteToPlaying h"
| "runCallback PauseCleanup h = pauseCleanup h"
| "runCallback StopCleanup h = stopCleanup h"

definition fireTimer :: "nat \<Rightarrow> LiveMusicHelper \<Rightarrow> LiveMusicHelper" where
  "fireTimer i h =
     (case find (\<lambda>t. timer_id t = i) (timers h) of
        None \<Rightarrow> h
      | Some t \<Rightarrow> runCallback (timer_callback t) (clearTimeout i h))"

subsection \<open>Prompt weight publisher\<close>

text \<open>
  The function wrapped by \<open>throttle(..., 200)\<close>, up to and including the call of
  \<open>session.setWeightedPrompts\<close>. The throttle (utils/throttle.ts) decides whether a call
  of the public method reaches this body.
\<close>

definition setWeightedPrompts :: "Prompt list \<Rightarrow> real \<Rightarrow> real \<Rightarrow> LiveMusicHelper \<Rightarrow> LiveMusicHelper" where
  "setWeightedPrompts prompts now g h =
     (let activePrompts = filter (\<lambda>p. prompt_text p \<notin> filteredPrompts h) prompts;
          dystopianIndustrialPrompt =
            find (\<lambda>p. prompt_text p = ''Dystopian Industrial'') activePrompts;
          targetGain = (if dystopianIndustrialPrompt \<noteq> None then - 18 else 0);
          h1 = h\<lparr>highShelfGain := cancelScheduledValues now (highShelfGain h)
                   @ [LinearRampToValueAtTime targetGain (now + 0.5)]\<rparr>
      in if length activePrompts = 0
         then pause now g (dispatchEvent (ErrorEvent NO_ACTIVE_PROMPTS_ERROR) h1)
         else let h2 = dispatchEvent (ErrorCleared NO_ACTIVE_PROMPTS_ERROR) h1
              in case session h2 of
                   None \<Rightarrow> h2
                 | Some s \<Rightarrow> sendSession (SessionSetWeightedPrompts activePrompts) h2)"

text \<open>The \<open>catch\<close> block, run when the Session rejects the update with message \<open>msg\<close>.\<close>

definition setWeightedPrompts_catch :: "string \<Rightarrow> real \<Rightarrow> real \<Rightarrow> LiveMusicHelper \<Rightarrow> LiveMusicHelper" where
  "setWeightedPrompts_catch msg now g h = pause now g (dispatchEvent (ErrorEvent msg) h)"

subsection \<open>play and playPause\<close>

text \<open>
  \<open>play\<close> up to \<open>await this.getSession()\<close>; the first component is the connection
  attempt being awaited.
\<close>

definition play_begin :: "LiveMusicHelper \<Rightarrow> nat \<times> LiveMusicHelper" where
  "play_begin h =
     (let h1 = (case fadeOutTimeoutId h of
                  None \<Rightarrow> h
                | Some i \<Rightarrow> if i \<noteq> 0 then (clearTimeout i h)\<lparr>fadeOutTimeoutId := None\<rparr> else h)
      in getSession (setPlaybackState Loading h1))"

text \<open>
  The connection resolves: \<open>this.session\<close> is assigned and the throttled
  \<open>setWeightedPrompts\<close> is called; \<open>passes\<close> tells whether the throttle runs the body.
\<close>

definition play_connected ::
  "nat \<Rightarrow> Prompt list \<Rightarrow> bool \<Rightarrow> real \<Rightarrow> real \<Rightarrow> LiveMusicHelper \<Rightarrow> LiveMusicHelper" where
  "play_connected s activePrompts passes now g h =
     (let h1 = h\<lparr>session := Some s\<rparr>
      in if passes then setWeightedPrompts activePrompts now g h1 else h1)"

text \<open>The rest of \<open>play\<close>, after \<open>await this.setWeightedPrompts(activePrompts)\<close>.\<close>

definition play_finish :: "real \<Rightarrow> LiveMusicHelper \<Rightarrow> outcome" where
  "play_finish now h =
     (let h1 = h\<lparr>contextResumed := True\<rparr>
      in case session h1 of
           None \<Rightarrow> Threw TypeError h1
         | Some s \<Rightarrow>
             (let h2 = sendSession SessionPlay h1;
                  h3 = (case extraDestination h2 of
                          None \<Rightarrow> h2
                        | Some n \<Rightarrow> h2\<lparr>filterTaps := filterTaps h2 @ [n]\<rparr>);
                  h4 = h3\<lparr>outputGain := cancelScheduledValues now (outputGain h3)\<rparr>
              in Returned
                   (if fadeEnabled h4
                    then h4\<lparr>outputGain := outputGain h4
                             @ [SetValueAtTime 0.0001 now,
                                LinearRampToValueAtTime 1 (now + FADE_DURATION)]\<rparr>
                    else h4\<lparr>outputGain := outputGain h4 @ [SetValueAtTime 1 now]\<rparr>)))"

text \<open>
  A run of \<open>play\<close> with nothing else interleaved at its suspension points: the
  connection attempt of \<open>sessionPromise\<close> resolves to its session, the throttle lets the
  call through when \<open>passes\<close>, and the Session answers the update with \<open>reply\<close>
  (\<open>None\<close>: accepted, \<open>Some msg\<close>: rejected with that message).
\<close>

definition play ::
  "Prompt list \<Rightarrow> bool \<Rightarrow> string option \<Rightarrow> real \<Rightarrow> real \<Rightarrow> LiveMusicHelper \<Rightarrow> outcome" where
  "play activePrompts passes reply now g h =
     (let (s, h1) = play_begin h;
          h2 = play_connected s activePrompts passes now g h1;
          awaited = (passes \<and> filter (\<lambda>p. prompt_text p \<notin> filteredPrompts h1) activePrompts \<noteq> []);
          h3 = (case reply of
                  None \<Rightarrow> h2
                | Some msg \<Rightarrow> if awaited then setWeightedPrompts_catch msg now g h2 else h2)
      in play_finish now h3)"

definition playPause ::
  "Prompt list \<Rightarrow> bool \<Rightarrow> string option \<Rightarrow> real \<Rightarrow> real \<Rightarrow> LiveMusicHelper \<Rightarrow> outcome" where
  "playPause activePrompts passes reply now g h =
     (case playbackState h of
        Playing \<Rightarrow> Returned (pause now g h)
      | Paused \<Rightarrow> play activePrompts passes reply now g h
      | Stopped \<Rightarrow> play activePrompts passes reply now g h
      | Loading \<Rightarrow> Returned (stop now g h))"

subsection \<open>Master volume and Session callbacks\<close>

definition setMasterVolume :: "real \<Rightarrow> real \<Rightarrow> LiveMusicHelper \<Rightarrow> LiveMusicHelper" where
  "setMasterVolume volume now h =
     (let clampedVolume = max 0 (min 1 volume)
      in h\<lparr>masterGain := cancelScheduledValues now (masterGain h)
              @ [LinearRampToValueAtTime clampedVolume (now + 0.05)]\<rparr>)"

definition onmessage ::
  "(AudioChunk \<Rightarrow> real) \<Rightarrow> LiveMusicServerMessage \<Rightarrow> real \<Rightarrow> LiveMusicHelper \<Rightarrow> outcome" where
  "onmessage dec e now h =
     (let h1 = (if setupComplete e then h\<lparr>connectionError := False\<rparr> else h);
          h2 = (case filteredPrompt e of
                  None \<Rightarrow> h1
                | Some fp \<Rightarrow>
                    dispatchEvent (FilteredPromptEvent fp)
                      (h1\<lparr>filteredPrompts := insert (filtered_text fp) (filteredPrompts h1)\<rparr>))
      in case audioChunks e of
           None \<Rightarrow> Returned h2
         | Some chunks \<Rightarrow> processAudioChunks dec chunks now h2)"

definition onerror :: "real \<Rightarrow> real \<Rightarrow> LiveMusicHelper \<Rightarrow> LiveMusicHelper" where
  "onerror now g h =
     dispatchEvent (ErrorEvent ''Connection error, please restart audio.'')
       (stop now g (h\<lparr>connectionError := True\<rparr>))"

definition onclose :: "real \<Rightarrow> real \<Rightarrow> LiveMusicHelper \<Rightarrow> LiveMusicHelper" where
  "onclose now g h =
     dispatchEvent (ErrorEvent ''Connection error, please restart audio.'')
       (stop now g (h\<lparr>connectionError := True\<rparr>))"

section \<open>Observations used in the statements\<close>

text \<open>The prompt updates forwarded to the Session, in order, read off the command log.\<close>

fun forwardedPrompts :: "nat \<times> session_cmd \<Rightarrow> Prompt list option" where
  "forwardedPrompts (s, SessionSetWeightedPrompts ps) = Some ps"
| "forwardedPrompts (s, c) = None"

definition forwards :: "LiveMusicHelper \<Rightarrow> Prompt list list" where
  "forwards h = List.map_filter forwardedPrompts (sessionLog h)"

text \<open>
  A helper that is playing from an established session with fading switched on and
  the timeline cursor at 10 s.
\<close>

definition fading_session :: LiveMusicHelper where
  "fading_session = init\<lparr>fadeEnabled := True, playbackState := Playing, session := Some 1,
     sessionPromise := Some 1, connects := 1, nextStartTime := 10\<rparr>"

section \<open>Auxiliary facts\<close>

lemmas sched_defs = processAudioChunks_def processAudioChunks_decoded_def establishTimeline_def
  setPlaybackState_def dispatchEvent_def setTimeout_def Let_def

lemmas pause_defs = pause_def stop_def fadeOut_def snapToZero_def pauseCleanup_def stopCleanup_def
  sendSession_def setPlaybackState_def dispatchEvent_def setTimeout_def Let_def

lemma pause_playbackState:
  "playbackState (pause now g h) = (if playbackState h = Stopped then Stopped else Paused)"
  by (auto simp: pause_defs split: option.splits)

lemma pause_highShelfGain: "highShelfGain (pause now g h) = highShelfGain h"
  by (auto simp: pause_defs split: option.splits)

lemma pause_dispatched:
  "dispatched (pause now g h) =
     dispatched h @ (if playbackState h = Paused \<or> playbackState h = Stopped then []
                     else [PlaybackStateChanged Paused])"
  by (auto simp: pause_defs split: option.splits)

lemma pause_forwards: "forwards (pause now g h) = forwards h"
  by (auto simp: pause_defs forwards_def map_filter_def split: option.splits)

lemma stop_dispatched:
  "dispatched (stop now g h) =
     dispatched h @ (if playbackState h = Stopped then [] else [PlaybackStateChanged Stopped])"
  by (auto simp: pause_defs split: option.splits)

lemma stop_playbackState: "playbackState (stop now g h) = Stopped"
  by (auto simp: pause_defs split: option.splits)

lemma play_finish_playbackState: "playbackState (state_of (play_finish now h)) = playbackState h"
  by (auto simp: play_finish_def sendSession_def Let_def split: option.splits)

lemma setWeightedPrompts_playbackState:
  "playbackState h = Loading \<Longrightarrow>
   playbackState (setWeightedPrompts ps now g h) \<in> {Loading, Paused}"
  by (auto simp: setWeightedPrompts_def Let_def pause_playbackState dispatchEvent_def
      sendSession_def split: option.splits)

lemma play_begin_playbackState: "playbackState (snd (play_begin h)) = Loading"
  by (auto simp: play_begin_def getSession_def setPlaybackState_def dispatchEvent_def
      clearTimeout_def Let_def split: option.splits)

text \<open>
  Whatever the state it starts from, an uninterrupted run of \<open>play\<close> ends in \<open>loading\<close>,
  or in \<open>paused\<close> when the prompt update paused playback on the way.
\<close>

lemma play_never_stopped:
  "playbackState (state_of (play ps passes reply now g h)) \<in> {Loading, Paused}"
proof -
  obtain s h1 where pb: "play_begin h = (s, h1)" by (cases "play_begin h")
  then have l: "playbackState h1 = Loading" using play_begin_playbackState [of h] by simp
  have c: "playbackState (play_connected s ps passes now g h1) \<in> {Loading, Paused}"
    using setWeightedPrompts_playbackState [of "h1\<lparr>session := Some s\<rparr>" ps now g] l
    by (simp add: play_connected_def Let_def)
  show ?thesis
    using c by (auto simp: play_def pb play_finish_playbackState setWeightedPrompts_catch_def
        pause_playbackState dispatchEvent_def Let_def split: option.splits)
qed

lemma find_after_clear: "find (\<lambda>t. timer_id t = i) (filter (\<lambda>t. timer_id t \<noteq> i) ts) = None"
  by (simp add: find_None_iff)

lemma find_text_iff:
  "(find (\<lambda>p. prompt_text p = t) ps \<noteq> None) = (t \<in> set (map prompt_text ps))"
  by (auto simp: find_None_iff)

lemma setWeightedPrompts_highShelfGain:
  "highShelfGain (setWeightedPrompts prompts now g h) =
     cancelScheduledValues now (highShelfGain h)
       @ [LinearRampToValueAtTime
            (if find (\<lambda>p. prompt_text p = ''Dystopian Industrial'')
                  (filter (\<lambda>p. prompt_text p \<notin> filteredPrompts h) prompts) \<noteq> None
             then - 18 else 0)
            (now + 0.5)]"
  by (simp add: setWeightedPrompts_def Let_def pause_highShelfGain
      dispatchEvent_def sendSession_def split: option.splits)

subsection \<open>Rounded sums\<close>

lemmas sched_fl_defs = processAudioChunks_fl_def processAudioChunks_decoded_fl_def
  establishTimeline_fl_def setPlaybackState_def dispatchEvent_def setTimeout_def Let_def

text \<open>Without rounding the scheduler with rounded sums is the exact one.\<close>

lemma processAudioChunks_fl_exact:
  "processAudioChunks_fl (\<lambda>x. x) dec chunks now h = processAudioChunks dec chunks now h"
proof -
  have "establishTimeline_fl (\<lambda>x. x) t k = establishTimeline t k" for t k
    by (simp add: establishTimeline_fl_def establishTimeline_def)
  then have "processAudioChunks_decoded_fl (\<lambda>x. x) d now h = processAudioChunks_decoded d now h"
    for d
    by (simp add: processAudioChunks_decoded_fl_def processAudioChunks_decoded_def)
  then show ?thesis
    by (cases chunks) (simp_all add: processAudioChunks_fl_def processAudioChunks_def)
qed

lemma mono_round_quarter: "mono round_quarter"
  unfolding mono_def round_quarter_def
  by (auto intro!: divide_right_mono floor_mono)

text \<open>
  A cursor that is established and not behind a non-negative clock is positive, and
  stays positive when a non-negative duration is added and the sum rounded by a
  monotone rounding that leaves the cursor, a double, as it is.
\<close>

lemma rounded_cursor_positive:
  fixes fl :: "real \<Rightarrow> real"
  assumes "mono fl" and "fl t0 = t0" and "t0 \<noteq> 0" and "0 \<le> now1" and "\<not> t0 < now1"
    and "0 \<le> d"
  shows "0 < fl (t0 + d)"
proof -
  have "0 < t0" using assms(3,4,5) by linarith
  moreover have "fl t0 \<le> fl (t0 + d)" using assms(1,6) by (simp add: monoD)
  ultimately show ?thesis using assms(2) by simp
qed

subsection \<open>Fade-out and its deferred cleanup\<close>

text \<open>
  With fading on, an effective \<open>stop\<close> or \<open>pause\<close> ramps the output gain to 0.0001 over
  5 s, sends nothing to the Session, leaves the cursor alone and arms a 5000 ms timer
  whose handle is kept in \<open>fadeOutTimeoutId\<close>.
\<close>

lemma stop_fade_defers_cleanup:
  assumes "fadeEnabled h" and "playbackState h \<noteq> Stopped"
  shows "outputGain (stop now g h) = cancelScheduledValues now (outputGain h)
              @ [SetValueAtTime g now, LinearRampToValueAtTime 0.0001 (now + 5)]
         \<and> sessionLog (stop now g h) = sessionLog h
         \<and> nextStartTime (stop now g h) = nextStartTime h
         \<and> session (stop now g h) = session h
         \<and> fadeOutTimeoutId (stop now g h) = Some (Suc (lastTimerId h))
         \<and> timers (stop now g h) = timers h @ [\<lparr>timer_id = Suc (lastTimerId h),
               timer_delay_ms = 5000, timer_callback = StopCleanup\<rparr>]"
  using assms by (simp add: pause_defs FADE_DURATION_def)

lemma pause_fade_defers_cleanup:
  assumes "fadeEnabled h" and "playbackState h \<noteq> Stopped" and "playbackState h \<noteq> Paused"
  shows "outputGain (pause now g h) = cancelScheduledValues now (outputGain h)
              @ [SetValueAtTime g now, LinearRampToValueAtTime 0.0001 (now + 5)]
         \<and> sessionLog (pause now g h) = sessionLog h
         \<and> nextStartTime (pause now g h) = nextStartTime h
         \<and> fadeOutTimeoutId (pause now g h) = Some (Suc (lastTimerId h))
         \<and> timers (pause now g h) = timers h @ [\<lparr>timer_id = Suc (lastTimerId h),
               timer_delay_ms = 5000, timer_callback = PauseCleanup\<rparr>]"
  using assms by (simp add: pause_defs FADE_DURATION_def)

text \<open>
  \<open>play\<close> cancels the timer whose handle is in \<open>fadeOutTimeoutId\<close>: that timer can no
  longer fire, nothing was sent and the cursor is as it was.
\<close>

lemma play_begin_after_fade:
  assumes "fadeOutTimeoutId h1 = Some i" and "i \<noteq> 0"
  shows "find (\<lambda>t. timer_id t = i) (timers (snd (play_begin h1))) = None
         \<and> fireTimer i (snd (play_begin h1)) = snd (play_begin h1)
         \<and> sessionLog (snd (play_begin h1)) = sessionLog h1
         \<and> nextStartTime (snd (play_begin h1)) = nextStartTime h1
         \<and> fadeOutTimeoutId (snd (play_begin h1)) = None"
  using assms
  by (auto simp: play_begin_def getSession_def setPlaybackState_def dispatchEvent_def
      clearTimeout_def fireTimer_def find_after_clear Let_def split: option.splits)

text \<open>With fading off the gain is set to 0 at once and the cleanup runs in the call.\<close>

lemma no_fade_cleans_up_synchronously:
  assumes "\<not> fadeEnabled h" and "playbackState h \<noteq> Stopped"
  shows "outputGain (stop now g h) = cancelScheduledValues now (outputGain h) @ [SetValueAtTime 0 now]
         \<and> nextStartTime (stop now g h) = 0 \<and> session (stop now g h) = None
         \<and> sessionLog (stop now g h) = sessionLog (sendSession SessionStop h)
         \<and> timers (stop now g h) = timers h"
  using assms by (auto simp: pause_defs split: option.splits)

section \<open>Chunk scheduler\<close>

text \<open>
  Claim C1. A decoded buffer processed while the state is \<open>playing\<close> or \<open>loading\<close>,
  with the cursor non-zero and strictly behind the audio clock, is an underrun: the
  call returns with the state forced to \<open>loading\<close> (one notification), the cursor
  back at 0 and the buffer not started. The Session is left alone: no command is
  logged, \<open>session\<close> and \<open>sessionPromise\<close> are unchanged, no timer is armed. The next
  chunk, at any clock time \<open>now2\<close>, finds the cursor at 0 and takes the
  timeline-establishment branch: it is started at \<open>now2 + bufferTime\<close> and there is no
  second reset (no further notification, cursor non-reset at
  \<open>now2 + bufferTime + duration\<close>).
\<close>

theorem C1_underrun_resets_once:
  assumes "playbackState h = Playing \<or> playbackState h = Loading"
    and "nextStartTime h \<noteq> 0"
    and "nextStartTime h < now"
  shows "let r1 = processAudioChunks dec (c # rest) now h; h1 = state_of r1;
             r2 = processAudioChunks dec (c2 # rest2) now2 h1; h2 = state_of r2
         in r1 = Returned h1 \<and> playbackState h1 = Loading \<and> nextStartTime h1 = 0
            \<and> started h1 = started h
            \<and> dispatched h1 = dispatched h @ [PlaybackStateChanged Loading]
            \<and> sessionLog h1 = sessionLog h \<and> session h1 = session h
            \<and> sessionPromise h1 = sessionPromise h \<and> timers h1 = timers h
            \<and> r2 = Returned h2 \<and> playbackState h2 = Loading
            \<and> dispatched h2 = dispatched h1
            \<and> started h2 = started h @ [(now2 + bufferTime, dec c2)]
            \<and> nextStartTime h2 = now2 + bufferTime + dec c2
            \<and> sessionLog h2 = sessionLog h \<and> session h2 = session h"
  using assms by (auto simp: sched_defs bufferTime_def)

theorem C1_underrun_witness:
  "let h = init\<lparr>playbackState := Playing, nextStartTime := 1, session := Some 1\<rparr>;
       h1 = state_of (processAudioChunks (\<lambda>c. 1) [\<lparr>chunk_data = ''a''\<rparr>] 3 h);
       h2 = state_of (processAudioChunks (\<lambda>c. 1) [\<lparr>chunk_data = ''b''\<rparr>] 4 h1)
   in playbackState h = Playing \<and> nextStartTime h \<noteq> 0 \<and> nextStartTime h < 3
      \<and> playbackState h1 = Loading \<and> nextStartTime h1 = 0 \<and> started h1 = []
      \<and> sessionLog h1 = [] \<and> session h1 = Some 1
      \<and> dispatched h2 = [PlaybackStateChanged Loading]
      \<and> started h2 = [(6, 1)] \<and> nextStartTime h2 = 7"
  using C1_underrun_resets_once [of "init\<lparr>playbackState := Playing, nextStartTime := 1, session := Some 1\<rparr>"
      3 "\<lambda>c. 1" "\<lparr>chunk_data = ''a''\<rparr>" "[]" "\<lparr>chunk_data = ''b''\<rparr>" "[]" 4]
  by (simp add: init_def Let_def bufferTime_def)

text \<open>
  Claim C3. Let the cursor be established at \<open>t0\<close> (non-zero) while the state is
  \<open>loading\<close> or \<open>playing\<close>, and let two chunks of durations \<open>d1\<close> and \<open>d2\<close> be
  processed in order with no underrun at either: the cursor \<open>t0\<close> is not behind the
  clock \<open>now1\<close>, and the cursor the code holds after the first buffer, the double sum
  \<open>fl (t0 + d1)\<close>, is not behind the clock \<open>now2\<close>. Then the first buffer is started
  exactly at \<open>t0\<close> and the second exactly at the cursor \<open>t0 + d1\<close> as the code computes
  it, \<open>fl (t0 + d1)\<close>; each start advances the cursor by the duration, so it ends at
  \<open>fl (fl (t0 + d1) + d2)\<close>, and no timer is armed. The rounding \<open>fl\<close> is any monotone
  map that leaves the double \<open>t0\<close> as it is, as rounding to the nearest double does;
  the audio clock and the first duration are non-negative, as the platform guarantees.
  The buffer-horizon timer may or may not have promoted the state to \<open>playing\<close>
  between the two chunks (\<open>promoted\<close>).
\<close>

theorem C3_gapless_placement:
  assumes "playbackState h = Loading \<or> playbackState h = Playing"
    and "nextStartTime h = t0" and "t0 \<noteq> 0"
    and "mono fl" and "fl t0 = t0"
    and "0 \<le> now1" and "0 \<le> dec c1"
    and "\<not> t0 < now1" and "\<not> fl (t0 + dec c1) < now2"
  shows "let r1 = processAudioChunks_fl fl dec (c1 # rest1) now1 h; h1 = state_of r1;
             h1' = (if promoted then promoteToPlaying h1 else h1);
             r2 = processAudioChunks_fl fl dec (c2 # rest2) now2 h1'; h2 = state_of r2
         in r1 = Returned h1 \<and> started h1 = started h @ [(t0, dec c1)]
            \<and> nextStartTime h1 = fl (t0 + dec c1)
            \<and> r2 = Returned h2
            \<and> started h2 = started h @ [(t0, dec c1), (fl (t0 + dec c1), dec c2)]
            \<and> nextStartTime h2 = fl (fl (t0 + dec c1) + dec c2)
            \<and> timers h2 = timers h"
proof -
  have pos: "fl (t0 + dec c1) \<noteq> 0"
    using rounded_cursor_positive [of fl t0 now1 "dec c1"] assms by simp
  show ?thesis
    using assms(1,2,3,8,9) pos by (auto simp: sched_fl_defs promoteToPlaying_def)
qed

text \<open>
  The witness rounds to quarters: the cursor 1 and the duration 2/5 give the cursor
  3/2, which is not behind the clock 29/20 although the exact sum 7/5 is.
\<close>

theorem C3_gapless_witness:
  "let h = init\<lparr>playbackState := Loading, nextStartTime := 1\<rparr>;
       dec = (\<lambda>c. if chunk_data c = ''a'' then 2 / 5 else 1 / 2);
       h1 = state_of (processAudioChunks_fl round_quarter dec [\<lparr>chunk_data = ''a''\<rparr>] (1 / 2) h);
       h2 = state_of (processAudioChunks_fl round_quarter dec [\<lparr>chunk_data = ''b''\<rparr>] (29 / 20)
              (promoteToPlaying h1))
   in playbackState h = Loading \<and> nextStartTime h = 1 \<and> mono round_quarter
      \<and> round_quarter 1 = 1 \<and> round_quarter (1 + 2 / 5) = 3 / 2
      \<and> \<not> round_quarter (1 + 2 / 5) < 29 / 20 \<and> (1 :: real) + 2 / 5 < 29 / 20
      \<and> started h1 = [(1, 2 / 5)] \<and> nextStartTime h1 = 3 / 2
      \<and> started h2 = [(1, 2 / 5), (3 / 2, 1 / 2)] \<and> nextStartTime h2 = 2"
  using C3_gapless_placement [of "init\<lparr>playbackState := Loading, nextStartTime := 1\<rparr>" 1
      round_quarter "1 / 2" "\<lambda>c. if chunk_data c = ''a'' then 2 / 5 else 1 / 2"
      "\<lparr>chunk_data = ''a''\<rparr>" "29 / 20" "[]" True "\<lparr>chunk_data = ''b''\<rparr>" "[]"]
    mono_round_quarter
  by (simp add: init_def sched_fl_defs promoteToPlaying_def round_quarter_def)

text \<open>
  Claim C7. A decoded buffer processed while the state is \<open>playing\<close> or \<open>loading\<close> with
  the cursor at 0 sets the cursor to \<open>currentTime + bufferTime\<close> (\<open>bufferTime\<close> is 2 s):
  the buffer is started at that time and the cursor then advances by its duration.
  One timer is armed, with delay \<open>bufferTime * 1000\<close> ms and the promotion callback.
  When such a timer fires in any later state \<open>h'\<close>, the state becomes \<open>playing\<close> (with
  its notification) if it is still \<open>loading\<close>; in every other state the firing only
  removes the timer from the pending ones.
\<close>

theorem C7_buffer_horizon:
  assumes "playbackState h = Playing \<or> playbackState h = Loading"
    and "nextStartTime h = 0"
    and "find (\<lambda>t. timer_id t = i) (timers h') =
           Some \<lparr>timer_id = i, timer_delay_ms = bufferTime * 1000, timer_callback = PromoteToPlaying\<rparr>"
  shows "let r = processAudioChunks dec (c # rest) now h; h1 = state_of r
         in r = Returned h1 \<and> bufferTime = 2
            \<and> nextStartTime (establishTimeline now h) = now + bufferTime
            \<and> started h1 = started h @ [(now + bufferTime, dec c)]
            \<and> nextStartTime h1 = now + bufferTime + dec c
            \<and> timers h1 = timers h @ [\<lparr>timer_id = Suc (lastTimerId h),
                 timer_delay_ms = bufferTime * 1000, timer_callback = PromoteToPlaying\<rparr>]
            \<and> playbackState h1 = playbackState h \<and> dispatched h1 = dispatched h
            \<and> fireTimer i h' =
                 (if playbackState h' = Loading then setPlaybackState Playing (clearTimeout i h')
                  else clearTimeout i h')
            \<and> playbackState (fireTimer i h') =
                 (if playbackState h' = Loading then Playing else playbackState h')
            \<and> dispatched (fireTimer i h') =
                 (if playbackState h' = Loading then dispatched h' @ [PlaybackStateChanged Playing]
                  else dispatched h')"
  using assms
  by (auto simp: sched_defs bufferTime_def fireTimer_def promoteToPlaying_def clearTimeout_def)

theorem C7_buffer_horizon_witness:
  "let h = init\<lparr>playbackState := Loading\<rparr>;
       h1 = state_of (processAudioChunks (\<lambda>c. 1) [\<lparr>chunk_data = ''a''\<rparr>] 7 h);
       hs = stop 8 1 h1
   in playbackState h = Loading \<and> nextStartTime h = 0
      \<and> find (\<lambda>t. timer_id t = 1) (timers h1) =
           Some \<lparr>timer_id = 1, timer_delay_ms = bufferTime * 1000, timer_callback = PromoteToPlaying\<rparr>
      \<and> find (\<lambda>t. timer_id t = 1) (timers hs) =
           Some \<lparr>timer_id = 1, timer_delay_ms = bufferTime * 1000, timer_callback = PromoteToPlaying\<rparr>
      \<and> started h1 = [(9, 1)] \<and> nextStartTime h1 = 10
      \<and> playbackState (fireTimer 1 h1) = Playing
      \<and> dispatched (fireTimer 1 h1) = [PlaybackStateChanged Playing]
      \<and> playbackState hs = Stopped
      \<and> playbackState (fireTimer 1 hs) = Stopped
      \<and> dispatched (fireTimer 1 hs) = dispatched hs"
  using C7_buffer_horizon [of "init\<lparr>playbackState := Loading\<rparr>"
      1 "state_of (processAudioChunks (\<lambda>c. 1) [\<lparr>chunk_data = ''a''\<rparr>] 7 (init\<lparr>playbackState := Loading\<rparr>))"
      "\<lambda>c. 1" "\<lparr>chunk_data = ''a''\<rparr>" "[]" 7]
    C7_buffer_horizon [of "init\<lparr>playbackState := Loading\<rparr>"
      1 "stop 8 1 (state_of (processAudioChunks (\<lambda>c. 1) [\<lparr>chunk_data = ''a''\<rparr>] 7 (init\<lparr>playbackState := Loading\<rparr>)))"
      "\<lambda>c. 1" "\<lparr>chunk_data = ''a''\<rparr>" "[]" 7]
  by (simp add: init_def bufferTime_def sched_defs pause_defs cancelScheduledValues_def
      fireTimer_def clearTimeout_def promoteToPlaying_def)

text \<open>
  Claim C9. Of a batch of chunks only the one at index 0 matters: processing
  \<open>c # rest\<close> is processing the batch \<open>[c]\<close>, with a decoder that is consulted for \<open>c\<close>
  alone. What happens to that chunk is fixed in every branch. While the state is
  \<open>paused\<close> or \<open>stopped\<close> the batch is dropped and nothing changes. Otherwise one
  buffer source is created, for \<open>c\<close>; with \<open>t\<close> the cursor (\<open>now + bufferTime\<close> when
  it was 0), either \<open>t\<close> is behind the clock, and then nothing is started, the cursor
  is reset to 0 and the state is \<open>loading\<close>; or the buffer of \<open>c\<close> is the one buffer
  started, at \<open>t\<close>, and the cursor becomes \<open>t\<close> plus its duration. \<open>rest\<close> contributes
  nothing to the buffers started or to the cursor.
\<close>

theorem C9_first_chunk_only:
  "processAudioChunks dec (c # rest) now h = processAudioChunks (\<lambda>x. dec c) [c] now h
   \<and> (let h1 = state_of (processAudioChunks dec (c # rest) now h);
          t = (if nextStartTime h = 0 then now + bufferTime else nextStartTime h)
      in if playbackState h = Paused \<or> playbackState h = Stopped then h1 = h
         else bufferSources h1 = bufferSources h @ [dec c]
              \<and> (if t < now
                  then started h1 = started h \<and> nextStartTime h1 = 0
                       \<and> playbackState h1 = Loading
                  else started h1 = started h @ [(t, dec c)]
                       \<and> nextStartTime h1 = t + dec c
                       \<and> playbackState h1 = playbackState h))"
  by (auto simp: processAudioChunks_def processAudioChunks_decoded_def establishTimeline_def
      setPlaybackState_def dispatchEvent_def setTimeout_def Let_def bufferTime_def)

section \<open>Playback state machine\<close>

text \<open>
  \<open>play\<close> called while \<open>loading\<close> does not stop playback: right after the call the
  state is \<open>loading\<close>, and it still is when the whole of \<open>play\<close> has run with an
  accepted prompt update.
\<close>

theorem C2_play_while_loading_counterexample:
  "playbackState (snd (play_begin
       (init\<lparr>playbackState := Loading, sessionPromise := Some 1, connects := 1\<rparr>))) \<noteq> Stopped
   \<and> playbackState (state_of (play [\<lparr>promptId = ''prompt-0'', prompt_text = ''Analog Synth Lead'',
        weight = 1, cc = 0, color = ''#fd7e14'', description = []\<rparr>] True None 0 1
        (init\<lparr>playbackState := Loading, sessionPromise := Some 1, connects := 1\<rparr>))) = Loading"
  by (simp add: play_def play_begin_def play_connected_def play_finish_def getSession_def
      setWeightedPrompts_def init_def pause_defs cancelScheduledValues_def)

text \<open>
  Claim C2, amended. The toggle lives in \<open>playPause\<close>: called while the state is
  \<open>loading\<close> it is a call of \<open>stop\<close>, and the state becomes \<open>stopped\<close>. \<open>play\<close> itself
  has no such toggle: called while \<open>loading\<close> it sets the state to \<open>loading\<close> again,
  and when an uninterrupted run of it completes the state is not \<open>stopped\<close>.
\<close>

theorem C2_toggle_is_in_playPause:
  assumes "playbackState h = Loading"
  shows "playPause ps passes reply now g h = Returned (stop now g h)
         \<and> playbackState (stop now g h) = Stopped
         \<and> playbackState (snd (play_begin h)) = Loading
         \<and> playbackState (state_of (play ps passes reply now g h)) \<noteq> Stopped"
  using assms play_never_stopped [of ps passes reply now g h]
  by (auto simp: playPause_def play_begin_playbackState pause_defs split: option.splits)

theorem C2_toggle_witness:
  "playbackState (init\<lparr>playbackState := Loading\<rparr>) = Loading
   \<and> playPause [] True None 3 1 (init\<lparr>playbackState := Loading\<rparr>)
       = Returned (stop 3 1 (init\<lparr>playbackState := Loading\<rparr>))
   \<and> playbackState (stop 3 1 (init\<lparr>playbackState := Loading\<rparr>)) = Stopped
   \<and> dispatched (stop 3 1 (init\<lparr>playbackState := Loading\<rparr>)) = [PlaybackStateChanged Stopped]
   \<and> playbackState (snd (play_begin (init\<lparr>playbackState := Loading\<rparr>))) = Loading"
  using C2_toggle_is_in_playPause [of "init\<lparr>playbackState := Loading\<rparr>" "[]" True None 3 1]
  by (simp add: init_def pause_defs cancelScheduledValues_def)

text \<open>
  \<open>pause\<close> called while \<open>loading\<close> is not a no-op: the state becomes \<open>paused\<close> and a
  notification is dispatched.
\<close>

theorem C4_pause_while_loading_counterexample:
  "playbackState (init\<lparr>playbackState := Loading\<rparr>) = Loading
   \<and> dispatched (init\<lparr>playbackState := Loading\<rparr>) = []
   \<and> playbackState (pause 0 1 (init\<lparr>playbackState := Loading\<rparr>)) = Paused
   \<and> dispatched (pause 0 1 (init\<lparr>playbackState := Loading\<rparr>)) = [PlaybackStateChanged Paused]"
  by (simp add: init_def pause_defs cancelScheduledValues_def)

text \<open>
  Claim C4, amended. \<open>stop\<close> called in \<open>loading\<close>, \<open>playing\<close> or \<open>paused\<close> moves the state
  to \<open>stopped\<close> with one notification, and called in \<open>stopped\<close> changes nothing at all.
  \<open>pause\<close> called in \<open>playing\<close> or in \<open>loading\<close> moves the state to \<open>paused\<close> with one
  notification, and called in \<open>paused\<close> or \<open>stopped\<close> changes nothing at all.
\<close>

theorem C4_pause_stop_table:
  "playbackState (stop now g h) = Stopped
   \<and> dispatched (stop now g h) =
        dispatched h @ (if playbackState h = Stopped then [] else [PlaybackStateChanged Stopped])
   \<and> (playbackState h = Stopped \<longrightarrow> stop now g h = h)
   \<and> playbackState (pause now g h) =
        (case playbackState h of Playing \<Rightarrow> Paused | Loading \<Rightarrow> Paused
                               | Paused \<Rightarrow> Paused | Stopped \<Rightarrow> Stopped)
   \<and> dispatched (pause now g h) =
        dispatched h @ (if playbackState h = Playing \<or> playbackState h = Loading
                        then [PlaybackStateChanged Paused] else [])
   \<and> (playbackState h = Paused \<or> playbackState h = Stopped \<longrightarrow> pause now g h = h)"
proof -
  have "playbackState h = Stopped \<longrightarrow> stop now g h = h"
    by (simp add: stop_def)
  moreover have "playbackState h = Paused \<or> playbackState h = Stopped \<longrightarrow> pause now g h = h"
    by (auto simp: pause_def)
  moreover have "playbackState (pause now g h) =
        (case playbackState h of Playing \<Rightarrow> Paused | Loading \<Rightarrow> Paused
                               | Paused \<Rightarrow> Paused | Stopped \<Rightarrow> Stopped)"
    by (cases "playbackState h") (simp_all add: pause_playbackState)
  moreover have "dispatched (pause now g h) =
        dispatched h @ (if playbackState h = Playing \<or> playbackState h = Loading
                        then [PlaybackStateChanged Paused] else [])"
    by (cases "playbackState h") (simp_all add: pause_dispatched)
  ultimately show ?thesis
    by (simp add: stop_dispatched stop_playbackState)
qed

theorem C4_pause_stop_witness:
  "playbackState (init\<lparr>playbackState := Paused\<rparr>) = Paused
   \<and> pause 3 1 (init\<lparr>playbackState := Paused\<rparr>) = init\<lparr>playbackState := Paused\<rparr>
   \<and> playbackState init = Stopped \<and> stop 3 1 init = init \<and> pause 3 1 init = init
   \<and> playbackState (stop 3 1 (init\<lparr>playbackState := Paused\<rparr>)) = Stopped
   \<and> dispatched (stop 3 1 (init\<lparr>playbackState := Paused\<rparr>)) = [PlaybackStateChanged Stopped]
   \<and> playbackState (pause 3 1 (init\<lparr>playbackState := Playing\<rparr>)) = Paused"
  using C4_pause_stop_table [of 3 1 "init\<lparr>playbackState := Paused\<rparr>"]
    C4_pause_stop_table [of 3 1 init]
    C4_pause_stop_table [of 3 1 "init\<lparr>playbackState := Playing\<rparr>"]
  by (simp add: init_def)

section \<open>Prompt weight publisher\<close>

text \<open>
  Claim C5. When no prompt of the update is active (every text is in the filtered set,
  or the list is empty), a run of \<open>setWeightedPrompts\<close> is: the tone-shaping ramp, then
  one \<open>error\<close> event carrying \<open>NO_ACTIVE_PROMPTS_ERROR\<close>, then one call of \<open>pause\<close>, and
  nothing else. So the events dispatched are that one error followed by whatever the
  one \<open>pause\<close> dispatches, and no prompt update is forwarded to the Session. A later
  run (state \<open>h2\<close>) whose active set is not empty dispatches \<open>error-cleared\<close> with the
  same message.
\<close>

theorem C5_no_active_prompts:
  assumes "filter (\<lambda>p. prompt_text p \<notin> filteredPrompts h) prompts = []"
    and "filter (\<lambda>p. prompt_text p \<notin> filteredPrompts h2) prompts2 \<noteq> []"
  shows "setWeightedPrompts prompts now g h =
           pause now g (dispatchEvent (ErrorEvent NO_ACTIVE_PROMPTS_ERROR)
             (h\<lparr>highShelfGain := cancelScheduledValues now (highShelfGain h)
                   @ [LinearRampToValueAtTime 0 (now + 0.5)]\<rparr>))
         \<and> dispatched (setWeightedPrompts prompts now g h) =
             dispatched h @ [ErrorEvent NO_ACTIVE_PROMPTS_ERROR]
               @ (if playbackState h = Paused \<or> playbackState h = Stopped then []
                  else [PlaybackStateChanged Paused])
         \<and> forwards (setWeightedPrompts prompts now g h) = forwards h
         \<and> dispatched (setWeightedPrompts prompts2 now2 g2 h2) =
             dispatched h2 @ [ErrorCleared NO_ACTIVE_PROMPTS_ERROR]"
proof -
  let ?h1 = "h\<lparr>highShelfGain := cancelScheduledValues now (highShelfGain h)
                    @ [LinearRampToValueAtTime 0 (now + 0.5)]\<rparr>"
  have eq: "setWeightedPrompts prompts now g h =
      pause now g (dispatchEvent (ErrorEvent NO_ACTIVE_PROMPTS_ERROR) ?h1)"
    using assms(1) by (simp add: setWeightedPrompts_def Let_def)
  have d: "dispatched (setWeightedPrompts prompts now g h) =
             dispatched h @ [ErrorEvent NO_ACTIVE_PROMPTS_ERROR]
               @ (if playbackState h = Paused \<or> playbackState h = Stopped then []
                  else [PlaybackStateChanged Paused])"
    by (simp add: eq pause_dispatched dispatchEvent_def)
  have f: "forwards (setWeightedPrompts prompts now g h) = forwards h"
    by (simp add: eq pause_forwards) (simp add: forwards_def dispatchEvent_def)
  have c: "dispatched (setWeightedPrompts prompts2 now2 g2 h2) =
             dispatched h2 @ [ErrorCleared NO_ACTIVE_PROMPTS_ERROR]"
    using assms(2)
    by (auto simp: setWeightedPrompts_def Let_def dispatchEvent_def sendSession_def
        split: option.splits)
  from eq d f c show ?thesis by blast
qed

theorem C5_no_active_prompts_witness:
  "let p = \<lparr>promptId = ''prompt-5'', prompt_text = ''Ominous Strings'', weight = 1, cc = 5,
             color = ''#990000'', description = []\<rparr>;
       h = init\<lparr>playbackState := Playing, session := Some 1, sessionPromise := Some 1,
                connects := 1, filteredPrompts := {''Ominous Strings''}\<rparr>;
       h1 = setWeightedPrompts [p] 3 1 h;
       h2 = h1\<lparr>filteredPrompts := {}\<rparr>
   in filter (\<lambda>p. prompt_text p \<notin> filteredPrompts h) [p] = []
      \<and> filter (\<lambda>p. prompt_text p \<notin> filteredPrompts h2) [p] \<noteq> []
      \<and> dispatched h1 = [ErrorEvent NO_ACTIVE_PROMPTS_ERROR, PlaybackStateChanged Paused]
      \<and> playbackState h1 = Paused
      \<and> sessionLog h1 = [(1, SessionPause)]
      \<and> forwards h1 = []
      \<and> dispatched (setWeightedPrompts [p] 4 0 h2) =
           [ErrorEvent NO_ACTIVE_PROMPTS_ERROR, PlaybackStateChanged Paused,
            ErrorCleared NO_ACTIVE_PROMPTS_ERROR]
      \<and> forwards (setWeightedPrompts [p] 4 0 h2) = [[p]]"
  using C5_no_active_prompts [of
      "init\<lparr>playbackState := Playing, session := Some 1, sessionPromise := Some 1,
                connects := 1, filteredPrompts := {''Ominous Strings''}\<rparr>"
      "[\<lparr>promptId = ''prompt-5'', prompt_text = ''Ominous Strings'', weight = 1, cc = 5,
             color = ''#990000'', description = []\<rparr>]"
      "(setWeightedPrompts [\<lparr>promptId = ''prompt-5'', prompt_text = ''Ominous Strings'',
             weight = 1, cc = 5, color = ''#990000'', description = []\<rparr>] 3 1
          (init\<lparr>playbackState := Playing, session := Some 1, sessionPromise := Some 1,
                connects := 1, filteredPrompts := {''Ominous Strings''}\<rparr>))\<lparr>filteredPrompts := {}\<rparr>"
      "[\<lparr>promptId = ''prompt-5'', prompt_text = ''Ominous Strings'', weight = 1, cc = 5,
             color = ''#990000'', description = []\<rparr>]" 3 1 4 0]
  by (simp add: init_def setWeightedPrompts_def pause_defs cancelScheduledValues_def
      forwards_def map_filter_def)

text \<open>
  Claim C8. Every run of \<open>setWeightedPrompts\<close> leaves the gain of the high-shelf filter
  with its automation points at the current time or later cancelled, followed by one
  linear ramp ending 0.5 s from now, to -18 if the text \<open>Dystopian Industrial\<close> is in
  the active set and to 0 otherwise. This holds in every branch (no active prompt, no
  Session, update forwarded), and the handling of a rejected update does not touch the
  filter again.
\<close>

theorem C8_tone_shaping:
  "highShelfGain (setWeightedPrompts prompts now g h) =
     filter (\<lambda>e. automation_time e < now) (highShelfGain h)
       @ [LinearRampToValueAtTime
            (if ''Dystopian Industrial''
                  \<in> set (map prompt_text (filter (\<lambda>p. prompt_text p \<notin> filteredPrompts h) prompts))
             then - 18 else 0)
            (now + 0.5)]
   \<and> highShelfGain (setWeightedPrompts_catch msg now2 g2 h2) = highShelfGain h2"
  unfolding setWeightedPrompts_highShelfGain find_text_iff
  by (simp add: setWeightedPrompts_catch_def pause_highShelfGain dispatchEvent_def
      cancelScheduledValues_def)

text \<open>
  Claim C10. A run of \<open>setWeightedPrompts\<close> with a non-empty active set dispatches
  \<open>error-cleared\<close> with \<open>NO_ACTIVE_PROMPTS_ERROR\<close>, whatever the state it starts from
  (no error need be pending) and whether or not a Session exists: without a Session
  nothing is sent, with one the active prompts are sent after the event. If the
  Session then rejects the update, the event has already been dispatched and the
  \<open>error\<close> event of the rejection follows it.
\<close>

theorem C10_cleared_unconditionally:
  assumes "filter (\<lambda>p. prompt_text p \<notin> filteredPrompts h) prompts \<noteq> []"
  shows "let h1 = setWeightedPrompts prompts now g h
         in dispatched h1 = dispatched h @ [ErrorCleared NO_ACTIVE_PROMPTS_ERROR]
            \<and> (case session h of
                  None \<Rightarrow> sessionLog h1 = sessionLog h
                | Some s \<Rightarrow> sessionLog h1 = sessionLog h
                    @ [(s, SessionSetWeightedPrompts
                             (filter (\<lambda>p. prompt_text p \<notin> filteredPrompts h) prompts))])
            \<and> dispatched (setWeightedPrompts_catch msg now2 g2 h1) =
                dispatched h @ [ErrorCleared NO_ACTIVE_PROMPTS_ERROR, ErrorEvent msg]
                  @ (if playbackState h = Paused \<or> playbackState h = Stopped then []
                     else [PlaybackStateChanged Paused])"
  using assms
  by (auto simp: setWeightedPrompts_def setWeightedPrompts_catch_def Let_def pause_dispatched
      dispatchEvent_def sendSession_def split: option.splits)

theorem C10_cleared_witness:
  "let p = \<lparr>promptId = ''prompt-11'', prompt_text = ''Dystopian Industrial'', weight = 1,
             cc = 11, color = ''#696969'', description = []\<rparr>;
       h1 = setWeightedPrompts [p] 3 1 init;
       h2 = setWeightedPrompts [p] 3 1 (init\<lparr>session := Some 1, playbackState := Playing\<rparr>)
   in filter (\<lambda>p. prompt_text p \<notin> filteredPrompts init) [p] \<noteq> []
      \<and> dispatched h1 = [ErrorCleared NO_ACTIVE_PROMPTS_ERROR] \<and> sessionLog h1 = []
      \<and> dispatched h2 = [ErrorCleared NO_ACTIVE_PROMPTS_ERROR]
      \<and> sessionLog h2 = [(1, SessionSetWeightedPrompts [p])]
      \<and> dispatched (setWeightedPrompts_catch ''rejected'' 4 1 h2) =
          [ErrorCleared NO_ACTIVE_PROMPTS_ERROR, ErrorEvent ''rejected'',
           PlaybackStateChanged Paused]"
  using C10_cleared_unconditionally [of init
      "[\<lparr>promptId = ''prompt-11'', prompt_text = ''Dystopian Industrial'', weight = 1,
             cc = 11, color = ''#696969'', description = []\<rparr>]" 3 1 "''rejected''" 4 1]
    C10_cleared_unconditionally [of "init\<lparr>session := Some 1, playbackState := Playing\<rparr>"
      "[\<lparr>promptId = ''prompt-11'', prompt_text = ''Dystopian Industrial'', weight = 1,
             cc = 11, color = ''#696969'', description = []\<rparr>]" 3 1 "''rejected''" 4 1]
  by (simp add: init_def Let_def)

section \<open>Fade-out cleanup and a later play\<close>

text \<open>
  Claim C6. With fading on, the helper \<open>fading_session\<close> is paused at 8 s and stopped
  at 9 s (as a connection close does), and \<open>play\<close> is called before either timer has
  fired. \<open>stop\<close> overwrote the handle of the pause timer without clearing it, so \<open>play\<close>
  cancels the stop cleanup only: the pause cleanup (handle 1) is still pending. When
  it fires, the Session of the resumed playback is sent \<open>pause\<close> and the timeline
  cursor is reset to 0 while the state is \<open>loading\<close>.
\<close>

theorem C6_stale_pause_cleanup_survives_play:
  "let h1 = pause 8 1 fading_session;
       h2 = stop 9 (4 / 5) h1;
       h3 = snd (play_begin h2);
       h4 = fireTimer 1 h3
   in fadeOutTimeoutId h1 = Some 1 \<and> fadeOutTimeoutId h2 = Some 2
      \<and> map timer_callback (timers h2) = [PauseCleanup, StopCleanup]
      \<and> timers h3 = [\<lparr>timer_id = 1, timer_delay_ms = 5000, timer_callback = PauseCleanup\<rparr>]
      \<and> playbackState h3 = Loading \<and> nextStartTime h3 = 10 \<and> sessionLog h3 = []
      \<and> playbackState h4 = Loading \<and> nextStartTime h4 = 0
      \<and> sessionLog h4 = [(1, SessionPause)]"
  by (simp add: fading_session_def init_def pause_defs cancelScheduledValues_def FADE_DURATION_def
      play_begin_def getSession_def clearTimeout_def fireTimer_def)

end
